theory Spec2Isabelle
  imports Complex_Main
begin

section \<open>Slowdown events\<close>

text \<open>
  Embedding of \<^verbatim>\<open>packages/scan/src/core/notifications/event-tracking.ts\<close>.

  JavaScript numbers that hold timestamps and durations are modelled as \<^typ>\<open>real\<close>:
  the file only compares, adds and subtracts them. \<^verbatim>\<open>NaN\<close> and rounding are outside
  the model.

  \<^verbatim>\<open>FinalInteraction\<close> carries a \<^verbatim>\<open>detailedTiming: TimeoutStage\<close>; that type is declared
  in \<^verbatim>\<open>./performance\<close>, and this file reads one field of it, \<^verbatim>\<open>blockingTimeStart\<close>, and
  calls its \<^verbatim>\<open>stopListeningForRenders\<close>. \<^verbatim>\<open>FiberRenders\<close> is declared there too and is
  opaque here: it is the type parameter \<open>'fr\<close>.
\<close>

record FinalInteraction =
  blockingTimeStart :: real
  latency :: real
  completedAt :: real

text \<open>
  Meta of an \<^verbatim>\<open>InteractionEvent\<close>: \<^verbatim>\<open>{ ...finalInteraction, kind: event.kind }\<close>.
\<close>

record InteractionMeta = FinalInteraction +
  entryKind :: string

record 'fr LongRenderMeta =
  lr_latency :: real
  fiberRenders :: 'fr
  fps :: nat

datatype event_kind = interaction | long_render

text \<open>
  \<^verbatim>\<open>SlowdownEvent = (InteractionEvent | LongRenderPipeline) & { id: string }\<close>: a union
  tagged by \<^verbatim>\<open>kind\<close>, both variants with \<^verbatim>\<open>data.startAt\<close> and \<^verbatim>\<open>data.endAt\<close>.
\<close>

datatype 'fr SlowdownEvent =
    InteractionEvent (event_id: string) (startAt: real) (endAt: real)
      (interaction_meta: InteractionMeta)
  | LongRenderPipeline (event_id: string) (startAt: real) (endAt: real)
      (long_render_meta: "'fr LongRenderMeta")

fun kind :: "'fr SlowdownEvent \<Rightarrow> event_kind" where
  "kind (InteractionEvent _ _ _ _) = interaction"
| "kind (LongRenderPipeline _ _ _ _) = long_render"

section \<open>The toolbar event store\<close>

text \<open>
  A listener is a JavaScript callback; the \<^verbatim>\<open>Set\<close> of listeners compares callbacks by
  identity, so a callback is named by a handle. The model records each call of a
  listener, with its argument and with the events the store held at the time of the
  call (what \<^verbatim>\<open>get().state.events\<close> would have returned to the callback).

  What a callback does when it runs is not in the file. \<^verbatim>\<open>addEvent\<close> below is the call
  when every registered callback only observes: it returns and leaves the \<^verbatim>\<open>Set\<close> alone.
  Callbacks that add or remove listeners or throw are in the section on the live
  \<^verbatim>\<open>Set\<close>, with \<^verbatim>\<open>addEvent_live\<close>; on observers the two agree (lemma
  \<open>addEvent_live_observers\<close>). The sampler and \<^verbatim>\<open>onComplete\<close> below call \<^verbatim>\<open>addEvent\<close>: they
  too are modelled with callbacks that only observe. A callback that calls \<^verbatim>\<open>addEvent\<close>
  or \<^verbatim>\<open>clear\<close> itself is outside the model.
\<close>

type_synonym listener = nat

record 'fr listener_call =
  callee :: listener
  argument :: "'fr SlowdownEvent"
  visible_at_call :: "'fr SlowdownEvent list"

text \<open>
  \<^verbatim>\<open>events\<close> is \<^verbatim>\<open>state.events\<close>; \<^verbatim>\<open>listeners\<close> is the closure's \<^verbatim>\<open>Set\<close>, kept as the list
  of its members in insertion order (a JavaScript \<^verbatim>\<open>Set\<close> iterates in that order);
  \<^verbatim>\<open>calls\<close> is the record of listener invocations so far.
\<close>

record 'fr ToolbarEventStore =
  events :: "'fr SlowdownEvent list"
  listeners :: "listener list"
  calls :: "'fr listener_call list"

text \<open>The store as \<^verbatim>\<open>createStore\<close> builds it: no event, an empty \<^verbatim>\<open>Set\<close> of listeners.\<close>

definition initial_store :: "'fr ToolbarEventStore" where
  "initial_store = \<lparr> events = [], listeners = [], calls = [] \<rparr>"

text \<open>\<^verbatim>\<open>Set.prototype.add\<close> and \<^verbatim>\<open>Set.prototype.delete\<close> on the insertion-ordered list.\<close>

definition set_add :: "'a \<Rightarrow> 'a list \<Rightarrow> 'a list" where
  "set_add x xs = (if x \<in> set xs then xs else xs @ [x])"

definition set_delete :: "'a \<Rightarrow> 'a list \<Rightarrow> 'a list" where
  "set_delete x xs = filter (\<lambda>y. y \<noteq> x) xs"

text \<open>
  The three boundary checks of the callback given to \<^verbatim>\<open>events.find\<close> (lines 188 to
  222), in the order of the source; the first argument is the long-render event, the
  second the event the scan looks at.
\<close>

definition boundary_checks :: "'fr SlowdownEvent \<Rightarrow> 'fr SlowdownEvent \<Rightarrow> bool" where
  "boundary_checks longRenderEvent event =
     (if startAt longRenderEvent \<le> startAt event \<and>
         endAt longRenderEvent \<le> endAt event \<and>
         endAt longRenderEvent \<ge> startAt event then True
      else if startAt event \<le> startAt longRenderEvent \<and>
         endAt event \<ge> startAt longRenderEvent then True
      else if startAt longRenderEvent \<le> startAt event \<and>
         endAt longRenderEvent \<ge> endAt event then True
      else False)"

text \<open>
  The whole callback of \<^verbatim>\<open>events.find\<close>: a bare \<^verbatim>\<open>return\<close> yields \<^verbatim>\<open>undefined\<close>, which
  \<^verbatim>\<open>find\<close> reads as false.
\<close>

definition overlap_callback :: "'fr SlowdownEvent \<Rightarrow> 'fr SlowdownEvent \<Rightarrow> bool" where
  "overlap_callback longRenderEvent event =
     (if kind event = long_render then False
      else if event_id event = event_id longRenderEvent then False
      else boundary_checks longRenderEvent event)"

text \<open>
  \<^verbatim>\<open>applyOverlapCheckToLongRenderEvent\<close>: the first event of \<^verbatim>\<open>events\<close> that the callback
  accepts, if any; the caller's \<^verbatim>\<open>onOverlap\<close> runs when there is one.
\<close>

definition applyOverlapCheckToLongRenderEvent ::
  "'fr SlowdownEvent list \<Rightarrow> 'fr SlowdownEvent \<Rightarrow> 'fr SlowdownEvent option" where
  "applyOverlapCheckToLongRenderEvent evs longRenderEvent =
     find (overlap_callback longRenderEvent) evs"

text \<open>
  The loop \<^verbatim>\<open>for (const event of events)\<close> of lines 232 to 237, over the events still
  to visit, with \<^verbatim>\<open>toRemove\<close> as accumulator. \<^verbatim>\<open>None\<close> is the \<^verbatim>\<open>return\<close> of line 233, which
  leaves \<^verbatim>\<open>addEvent\<close> altogether; \<^verbatim>\<open>Some\<close> is the loop running to its end.
\<close>

fun removal_scan ::
  "'fr SlowdownEvent list \<Rightarrow> 'fr SlowdownEvent list \<Rightarrow> string set \<Rightarrow> string set option" where
  "removal_scan evs [] toRemove = Some toRemove"
| "removal_scan evs (event # rest) toRemove =
     (if kind event = interaction then None
      else removal_scan evs rest
             (case applyOverlapCheckToLongRenderEvent evs event of
                None \<Rightarrow> toRemove
              | Some overlapsWith \<Rightarrow> insert (event_id event) toRemove))"

text \<open>
  The first loop of \<^verbatim>\<open>addEvent\<close> over callbacks that only observe: every listener of
  the set is called with the event.
\<close>

definition notify_listeners ::
  "'fr ToolbarEventStore \<Rightarrow> 'fr SlowdownEvent \<Rightarrow> 'fr listener_call list" where
  "notify_listeners s event =
     map (\<lambda>l. \<lparr> callee = l, argument = event, visible_at_call = events s \<rparr>) (listeners s)"

definition addEvent :: "'fr ToolbarEventStore \<Rightarrow> 'fr SlowdownEvent \<Rightarrow> 'fr ToolbarEventStore" where
  "addEvent s event =
     (let notified = s\<lparr> calls := calls s @ notify_listeners s event \<rparr>;
          evs = events s @ [event]
      in case removal_scan evs evs {} of
           None \<Rightarrow> notified
         | Some toRemove \<Rightarrow>
             notified\<lparr> events := filter (\<lambda>e. event_id e \<notin> toRemove) evs \<rparr>)"

definition addListener :: "'fr ToolbarEventStore \<Rightarrow> listener \<Rightarrow> 'fr ToolbarEventStore" where
  "addListener s l = s\<lparr> listeners := set_add l (listeners s) \<rparr>"

text \<open>The closure that \<^verbatim>\<open>addListener(listener)\<close> returns.\<close>

definition unsubscribe :: "listener \<Rightarrow> 'fr ToolbarEventStore \<Rightarrow> 'fr ToolbarEventStore" where
  "unsubscribe l s = s\<lparr> listeners := set_delete l (listeners s) \<rparr>"

definition clear :: "'fr ToolbarEventStore \<Rightarrow> 'fr ToolbarEventStore" where
  "clear s = s\<lparr> events := [] \<rparr>"

text \<open>
  The interval-intersection test as the specification words it: \<open>[s1,e1]\<close> and
  \<open>[s2,e2]\<close> overlap iff \<open>s1 \<le> e2\<close> and \<open>s2 \<le> e1\<close>.
\<close>

definition spec_overlap :: "'fr SlowdownEvent \<Rightarrow> 'fr SlowdownEvent \<Rightarrow> bool" where
  "spec_overlap a b = (startAt a \<le> endAt b \<and> startAt b \<le> endAt a)"

section \<open>Buffers and channels\<close>

text \<open>
  Modelled from the spec: \<^verbatim>\<open>BoundedArray\<close> (\<^verbatim>\<open>./performance-utils\<close>) is not among the sources.
  A Bounded Buffer has a fixed maximum capacity and holds a sequence;
  \<^verbatim>\<open>new BoundedArray(C)\<close> is the empty buffer of capacity \<open>C\<close>, and \<^verbatim>\<open>.length\<close> is the number
  of elements held.
\<close>

record 'a BoundedArray =
  capacity :: nat
  contents :: "'a list"

definition new_BoundedArray :: "nat \<Rightarrow> 'a BoundedArray" where
  "new_BoundedArray c = \<lparr> capacity = c, contents = [] \<rparr>"

definition length_BoundedArray :: "'a BoundedArray \<Rightarrow> nat" where
  "length_BoundedArray b = length (contents b)"

text \<open>
  \<^verbatim>\<open>PerformanceEntryChannelEvent\<close> is declared in \<^verbatim>\<open>./performance\<close>; this file reads its
  \<^verbatim>\<open>kind\<close> only.
\<close>

record PerformanceEntryChannelEvent =
  entry_kind :: string

text \<open>
  Modelled from the spec: \<^verbatim>\<open>performanceEntryChannels\<close> (\<^verbatim>\<open>./performance-store\<close>) is not among
  the sources. Channels are buffers keyed by a unique name; \<^verbatim>\<open>getChannelState(name)\<close>
  returns the current buffer, or an empty one if the name is unseen;
  \<^verbatim>\<open>updateChannelState(name, fn)\<close> replaces the channel's buffer with \<^verbatim>\<open>fn(currentBuffer)\<close>.
  The constant \<^verbatim>\<open>MAX_CHANNEL_SIZE\<close> is declared there too: it is a parameter here.
\<close>

type_synonym channels = "string \<rightharpoonup> PerformanceEntryChannelEvent BoundedArray"

definition getChannelState ::
  "nat \<Rightarrow> channels \<Rightarrow> string \<Rightarrow> PerformanceEntryChannelEvent BoundedArray" where
  "getChannelState MAX_CHANNEL_SIZE chs name =
     (case chs name of None \<Rightarrow> new_BoundedArray MAX_CHANNEL_SIZE | Some b \<Rightarrow> b)"

definition updateChannelState ::
  "nat \<Rightarrow> channels \<Rightarrow> string \<Rightarrow>
   (PerformanceEntryChannelEvent BoundedArray \<Rightarrow> PerformanceEntryChannelEvent BoundedArray) \<Rightarrow>
   channels" where
  "updateChannelState MAX_CHANNEL_SIZE chs name fn =
     chs(name \<mapsto> fn (getChannelState MAX_CHANNEL_SIZE chs name))"

section \<open>Module state and scheduled callbacks\<close>

datatype InteractionStatus =
    no_interaction
  | started (startedAt: real)
  | completed (startedAt: real) (endedAt: real)

text \<open>
  The callback of the measurement loop that the browser holds: none, the
  \<^verbatim>\<open>requestAnimationFrame\<close> callback, or the \<^verbatim>\<open>setTimeout\<close> callback. Both closures capture
  \<^verbatim>\<open>startTime\<close> and \<^verbatim>\<open>startOrigin\<close> of their cycle.
\<close>

datatype pending_callback =
    no_callback
  | animation_frame real real
  | timeout real real

text \<open>
  The module-level variables, and what the module has registered outside itself:
  \<^verbatim>\<open>visibilityListeners\<close> counts the \<^verbatim>\<open>visibilitychange\<close> listeners added to the document,
  and the six flags say which subscriptions to the collaborators of the next section
  are active.
\<close>

record 'fr World =
  toolbarEventStore :: "'fr ToolbarEventStore"
  interactionStatus :: InteractionStatus
  isTaskDirty :: bool
  framesDrawnInTheLastSecond :: "real list"
  pendingMeasure :: pending_callback
  rendersListening :: bool
  interactionRendersListening :: bool
  visibilityListeners :: nat
  performanceEntryChannels :: channels
  performancePublisher :: bool
  pointerTiming :: bool
  keyboardTiming :: bool
  performanceEntryInteractions :: bool

definition initial_world :: "'fr World" where
  "initial_world =
     \<lparr> toolbarEventStore = initial_store,
       interactionStatus = no_interaction,
       isTaskDirty = False,
       framesDrawnInTheLastSecond = [],
       pendingMeasure = no_callback,
       rendersListening = False,
       interactionRendersListening = False,
       visibilityListeners = 0,
       performanceEntryChannels = Map.empty,
       performancePublisher = False,
       pointerTiming = False,
       keyboardTiming = False,
       performanceEntryInteractions = False \<rparr>"

section \<open>Collaborators\<close>

text \<open>
  Modelled from the spec: \<^verbatim>\<open>setupPerformancePublisher\<close> (\<^verbatim>\<open>./performance\<close>) is not among the
  sources. The platform performance publisher is started by a call that returns its
  unsubscribe function, here \<^verbatim>\<open>unSubPerformance\<close>.
\<close>

definition setupPerformancePublisher :: "'fr World \<Rightarrow> 'fr World" where
  "setupPerformancePublisher w = w\<lparr> performancePublisher := True \<rparr>"

definition unSubPerformance :: "'fr World \<Rightarrow> 'fr World" where
  "unSubPerformance w = w\<lparr> performancePublisher := False \<rparr>"

text \<open>
  Modelled from the spec: \<^verbatim>\<open>setupDetailedPointerTimingListener\<close> (\<^verbatim>\<open>./performance\<close>) is not
  among the sources. The detailed-timing instrumentation is subscribed to per kind, with
  an \<^verbatim>\<open>onComplete\<close> handler, and returns its unsubscribe function, here
  \<^verbatim>\<open>unSubDetailedPointerTiming\<close> and \<^verbatim>\<open>unSubDetailedKeyboardTiming\<close>.
\<close>

datatype timing_kind = pointer | keyboard

definition setupDetailedPointerTimingListener :: "'fr World \<Rightarrow> timing_kind \<Rightarrow> 'fr World" where
  "setupDetailedPointerTimingListener w k =
     (case k of pointer \<Rightarrow> w\<lparr> pointerTiming := True \<rparr>
              | keyboard \<Rightarrow> w\<lparr> keyboardTiming := True \<rparr>)"

definition unSubDetailedPointerTiming :: "'fr World \<Rightarrow> 'fr World" where
  "unSubDetailedPointerTiming w = w\<lparr> pointerTiming := False \<rparr>"

definition unSubDetailedKeyboardTiming :: "'fr World \<Rightarrow> 'fr World" where
  "unSubDetailedKeyboardTiming w = w\<lparr> keyboardTiming := False \<rparr>"

text \<open>
  Modelled from the spec: \<^verbatim>\<open>listenForPerformanceEntryInteractions\<close> (\<^verbatim>\<open>./performance\<close>) is
  not among the sources. The platform feed listener is subscribed with a callback and
  returns its unsubscribe function, here \<^verbatim>\<open>unSubInteractions\<close>.
\<close>

definition listenForPerformanceEntryInteractions :: "'fr World \<Rightarrow> 'fr World" where
  "listenForPerformanceEntryInteractions w = w\<lparr> performanceEntryInteractions := True \<rparr>"

definition unSubInteractions :: "'fr World \<Rightarrow> 'fr World" where
  "unSubInteractions w = w\<lparr> performanceEntryInteractions := False \<rparr>"

text \<open>
  Modelled from the spec: \<^verbatim>\<open>listenForRenders\<close> (\<^verbatim>\<open>./performance\<close>) is not among the sources.
  The render-tree instrumentation is subscribed with an accumulator, which it fills, and
  returns its unsubscribe function, here \<^verbatim>\<open>unSub\<close>.
\<close>

definition listenForRenders :: "'fr World \<Rightarrow> 'fr World" where
  "listenForRenders w = w\<lparr> rendersListening := True \<rparr>"

definition unSub :: "'fr World \<Rightarrow> 'fr World" where
  "unSub w = w\<lparr> rendersListening := False \<rparr>"

text \<open>
  Modelled from the spec: \<^verbatim>\<open>stopListeningForRenders\<close> of a \<^verbatim>\<open>TimeoutStage\<close> (\<^verbatim>\<open>./performance\<close>)
  is not among the sources. It stops the render-trace listener that was attached for
  the interaction.
\<close>

definition stopListeningForRenders :: "'fr World \<Rightarrow> 'fr World" where
  "stopListeningForRenders w = w\<lparr> interactionRendersListening := False \<rparr>"

section \<open>Dirty-task tracking\<close>

definition startDirtyTaskTracking :: "'fr World \<Rightarrow> 'fr World" where
  "startDirtyTaskTracking w = w\<lparr> visibilityListeners := Suc (visibilityListeners w) \<rparr>"

text \<open>
  A \<^verbatim>\<open>visibilitychange\<close> event of the document; \<open>visible\<close> says whether
  \<^verbatim>\<open>document.visibilityState\<close> is \<^verbatim>\<open>'visible'\<close>. Every registered listener does the same.
\<close>

definition visibilitychange :: "'fr World \<Rightarrow> bool \<Rightarrow> 'fr World" where
  "visibilitychange w visible =
     (if visibilityListeners w = 0 then w
      else if visible then w
      else w\<lparr> isTaskDirty := True \<rparr>)"

section \<open>The long-pipeline sampler\<close>

text \<open>
  \<^verbatim>\<open>measure\<close> up to the call of \<^verbatim>\<open>requestAnimationFrame\<close>: \<open>startTime\<close> and \<open>startOrigin\<close>
  are what \<^verbatim>\<open>performance.now()\<close> and \<^verbatim>\<open>performance.timeOrigin\<close> return. The world holds the
  handles of one loop, the one that the single call of \<^verbatim>\<open>startLongPipelineTracking\<close> in
  \<^verbatim>\<open>startTimingTracking\<close> starts; a second loop running beside it is outside the model.
\<close>

definition measure_start :: "'fr World \<Rightarrow> real \<Rightarrow> real \<Rightarrow> 'fr World" where
  "measure_start w startTime startOrigin =
     (listenForRenders w)\<lparr> pendingMeasure := animation_frame startTime startOrigin \<rparr>"

text \<open>The animation-frame callback: it only sets the timer.\<close>

definition animation_frame_callback :: "'fr World \<Rightarrow> real \<Rightarrow> real \<Rightarrow> 'fr World" where
  "animation_frame_callback w startTime startOrigin =
     w\<lparr> pendingMeasure := timeout startTime startOrigin \<rparr>"

text \<open>Lines 307 to 311: push \<^verbatim>\<open>endNow\<close>, then keep the frames of the last second.\<close>

definition framesInTheLastSecond :: "real list \<Rightarrow> real \<Rightarrow> real list" where
  "framesInTheLastSecond frames endNow =
     filter (\<lambda>frameAt. endNow - frameAt \<le> 1000) (frames @ [endNow])"

text \<open>
  The timer callback (lines 304 to 339). \<open>endNow\<close> and \<open>endOrigin\<close> are the clock at
  that time, \<open>newId\<close> what \<^verbatim>\<open>not_globally_unique_generateId()\<close> returns, \<open>renders\<close> what
  the render instrumentation has put into \<^verbatim>\<open>accumulatedFiberRendersOverTask\<close>, and
  \<open>nextTime\<close>, \<open>nextOrigin\<close> the clock that the closing call of \<^verbatim>\<open>measure()\<close> reads.
\<close>

definition timeout_callback ::
  "'fr World \<Rightarrow> real \<Rightarrow> real \<Rightarrow> real \<Rightarrow> real \<Rightarrow> string \<Rightarrow> 'fr \<Rightarrow> real \<Rightarrow> real \<Rightarrow> 'fr World" where
  "timeout_callback w startTime startOrigin endNow endOrigin newId renders nextTime nextOrigin =
     (let duration = endNow - startTime;
          window = framesInTheLastSecond (framesDrawnInTheLastSecond w) endNow;
          fps = length window;
          w1 = w\<lparr> framesDrawnInTheLastSecond := window \<rparr>;
          w2 = (if duration > 100 \<and> \<not> isTaskDirty w1
                then w1\<lparr> toolbarEventStore :=
                           addEvent (toolbarEventStore w1)
                             (LongRenderPipeline newId (startTime + startOrigin) (endOrigin + endNow)
                                \<lparr> lr_latency = duration, fiberRenders = renders, fps = fps \<rparr>) \<rparr>
                else w1);
          w3 = w2\<lparr> isTaskDirty := False \<rparr>;
          w4 = unSub w3
      in measure_start w4 nextTime nextOrigin)"

text \<open>
  The browser running the pending callback of the loop, if there is one; only the
  timer callback reads the arguments.
\<close>

definition run_pending ::
  "'fr World \<Rightarrow> real \<Rightarrow> real \<Rightarrow> string \<Rightarrow> 'fr \<Rightarrow> real \<Rightarrow> real \<Rightarrow> 'fr World" where
  "run_pending w endNow endOrigin newId renders nextTime nextOrigin =
     (case pendingMeasure w of
        no_callback \<Rightarrow> w
      | animation_frame startTime startOrigin \<Rightarrow> animation_frame_callback w startTime startOrigin
      | timeout startTime startOrigin \<Rightarrow>
          timeout_callback w startTime startOrigin endNow endOrigin newId renders
            nextTime nextOrigin)"

definition startLongPipelineTracking :: "'fr World \<Rightarrow> real \<Rightarrow> real \<Rightarrow> 'fr World" where
  "startLongPipelineTracking w startTime startOrigin = measure_start w startTime startOrigin"

text \<open>
  The function that \<^verbatim>\<open>startLongPipelineTracking\<close> returns: \<^verbatim>\<open>cancelAnimationFrame\<close> and
  \<^verbatim>\<open>clearTimeout\<close> on the two handles.
\<close>

definition stopLongPipelineTracking :: "'fr World \<Rightarrow> 'fr World" where
  "stopLongPipelineTracking w = w\<lparr> pendingMeasure := no_callback \<rparr>"

section \<open>The timing orchestrator\<close>

text \<open>
  \<^verbatim>\<open>onComplete\<close> is declared \<^verbatim>\<open>async\<close> and awaits nothing: it runs to its end when
  called. \<open>now\<close> and \<open>timeOrigin\<close> are the clock, \<open>newId\<close> the generated id.
\<close>

definition onComplete ::
  "nat \<Rightarrow> 'fr World \<Rightarrow> FinalInteraction \<Rightarrow> PerformanceEntryChannelEvent \<Rightarrow>
   string \<Rightarrow> real \<Rightarrow> real \<Rightarrow> 'fr World" where
  "onComplete MAX_CHANNEL_SIZE w finalInteraction event newId now timeOrigin =
     (let w1 = w\<lparr> toolbarEventStore :=
                   addEvent (toolbarEventStore w)
                     (InteractionEvent newId (blockingTimeStart finalInteraction) (now + timeOrigin)
                        \<lparr> blockingTimeStart = blockingTimeStart finalInteraction,
                          latency = latency finalInteraction,
                          completedAt = completedAt finalInteraction,
                          entryKind = entry_kind event \<rparr>) \<rparr>;
          existingCompletedInteractions =
            getChannelState MAX_CHANNEL_SIZE (performanceEntryChannels w1) ''recording'';
          w2 = stopListeningForRenders w1
      in if length_BoundedArray existingCompletedInteractions \<noteq> 0
         then w2\<lparr> performanceEntryChannels :=
                    updateChannelState MAX_CHANNEL_SIZE (performanceEntryChannels w2) ''recording''
                      (\<lambda>_. new_BoundedArray MAX_CHANNEL_SIZE) \<rparr>
         else w2)"

text \<open>
  \<^verbatim>\<open>startTimingTracking\<close>, in the order of the source. What \<^verbatim>\<open>startDirtyTaskTracking\<close> and
  \<^verbatim>\<open>startLongPipelineTracking\<close> return is not kept (lines 353 and 354).
\<close>

definition startTimingTracking :: "'fr World \<Rightarrow> real \<Rightarrow> real \<Rightarrow> 'fr World" where
  "startTimingTracking w startTime startOrigin =
     (let w1 = setupPerformancePublisher w;
          w2 = startDirtyTaskTracking w1;
          w3 = startLongPipelineTracking w2 startTime startOrigin;
          w4 = setupDetailedPointerTimingListener w3 pointer;
          w5 = setupDetailedPointerTimingListener w4 keyboard
      in listenForPerformanceEntryInteractions w5)"

text \<open>
  The function that \<^verbatim>\<open>startTimingTracking\<close> returns (lines 410 to 415): the four
  unsubscribe functions, in the order of the source.
\<close>

definition stopTimingTracking :: "'fr World \<Rightarrow> 'fr World" where
  "stopTimingTracking w =
     (let w1 = unSubPerformance w;
          w2 = unSubDetailedPointerTiming w1;
          w3 = unSubInteractions w2
      in unSubDetailedKeyboardTiming w3)"

section \<open>Reading the record of listener calls\<close>



section \<open>The live \<open>Set\<close> of listeners\<close>










section \<open>Sample values\<close>

text \<open>The two events of the specification's end-to-end scenario.\<close>

abbreviation L1 :: "unit SlowdownEvent" where
  "L1 \<equiv> LongRenderPipeline ''L1'' 0 500 \<lparr> lr_latency = 500, fiberRenders = (), fps = 2 \<rparr>"

abbreviation I1 :: "unit SlowdownEvent" where
  "I1 \<equiv> InteractionEvent ''I1'' 200 300
           \<lparr> blockingTimeStart = 200, latency = 100, completedAt = 300, entryKind = ''pointer'' \<rparr>"

abbreviation L2 :: "unit SlowdownEvent" where
  "L2 \<equiv> LongRenderPipeline ''L2'' 250 400 \<lparr> lr_latency = 150, fiberRenders = (), fps = 2 \<rparr>"

text \<open>
  A world whose store has one listener; the same with one entry waiting in a
  \<^verbatim>\<open>recording\<close> channel of capacity 10; a completed detailed timing.
\<close>

abbreviation W0 :: "unit World" where
  "W0 \<equiv> initial_world\<lparr> toolbarEventStore := addListener initial_store 7 \<rparr>"

abbreviation recording_entry :: PerformanceEntryChannelEvent where
  "recording_entry \<equiv> \<lparr> entry_kind = ''entry-received'' \<rparr>"


abbreviation FI1 :: FinalInteraction where
  "FI1 \<equiv> \<lparr> blockingTimeStart = 200, latency = 100, completedAt = 300 \<rparr>"





section \<open>Unfolding the collaborators\<close>

lemmas collaborator_defs =
  setupPerformancePublisher_def unSubPerformance_def setupDetailedPointerTimingListener_def
  unSubDetailedPointerTiming_def unSubDetailedKeyboardTiming_def
  listenForPerformanceEntryInteractions_def unSubInteractions_def
  listenForRenders_def unSub_def stopListeningForRenders_def

section \<open>The scan of \<open>addEvent\<close>\<close>

text \<open>
  An interaction event among the events still to visit ends the scan at line 233,
  whatever was collected before it.
\<close>

lemma removal_scan_interaction:
  "\<exists>e \<in> set rest. kind e = interaction \<Longrightarrow> removal_scan evs rest T = None"
  by (induction rest arbitrary: T) auto

lemma addEvent_holding_interaction:
  assumes "x \<in> set (events s)" and "kind x = interaction"
  shows "addEvent s e = s\<lparr> calls := calls s @ notify_listeners s e \<rparr>"
proof -
  from assms have "\<exists>y \<in> set (events s @ [e]). kind y = interaction" by auto
  then have "removal_scan (events s @ [e]) (events s @ [e]) {} = None"
    by (rule removal_scan_interaction)
  then show ?thesis by (simp add: addEvent_def Let_def)
qed


text \<open>
  When every event is a long-render event the callback of \<^verbatim>\<open>find\<close> accepts none, so
  nothing is marked and the scan returns the set it was given.
\<close>

lemma no_overlap_among_long_renders:
  assumes "\<forall>e \<in> set evs. kind e = long_render"
  shows "applyOverlapCheckToLongRenderEvent evs l = None"
  using assms
  by (simp add: applyOverlapCheckToLongRenderEvent_def find_None_iff overlap_callback_def)

lemma removal_scan_long_renders:
  assumes "\<forall>e \<in> set evs. kind e = long_render" and "\<forall>e \<in> set rest. kind e = long_render"
  shows "removal_scan evs rest T = Some T"
  using assms(2)
proof (induction rest)
  case Nil
  show ?case by simp
next
  case (Cons a rest)
  then show ?case by (simp add: no_overlap_among_long_renders [OF assms(1)])
qed

text \<open>
  So \<^verbatim>\<open>addEvent\<close> has two outcomes only: the visible events stay as they are (some
  interaction event is among the old events and the new one), or the new event is
  appended (all of them are long-render events).
\<close>

lemma events_addEvent_cases:
  "events (addEvent s e) = (if \<exists>x \<in> set (events s @ [e]). kind x = interaction
                            then events s else events s @ [e])"
proof (cases "\<exists>x \<in> set (events s @ [e]). kind x = interaction")
  case True
  then have "removal_scan (events s @ [e]) (events s @ [e]) {} = None"
    by (rule removal_scan_interaction)
  with True show ?thesis by (simp add: addEvent_def Let_def)
next
  case False
  then have all: "\<forall>x \<in> set (events s @ [e]). kind x = long_render"
    by (metis event_kind.exhaust)
  then have "removal_scan (events s @ [e]) (events s @ [e]) {} = Some {}"
    by (rule removal_scan_long_renders [OF all])
  with False show ?thesis by (simp add: addEvent_def Let_def)
qed

text \<open>
  A store that holds long-render events only keeps doing so, whatever is given to
  \<^verbatim>\<open>addEvent\<close>: from the empty store no interaction event is ever among the visible events.
\<close>

lemma long_renders_only:
  assumes "\<forall>x \<in> set (events s). kind x = long_render"
  shows "\<forall>x \<in> set (events (foldl addEvent s es)). kind x = long_render"
  using assms
proof (induction es arbitrary: s)
  case Nil
  then show ?case by simp
next
  case (Cons e es)
  have "\<forall>x \<in> set (events (addEvent s e)). kind x = long_render"
    using Cons.prems by (cases "kind e") (auto simp add: events_addEvent_cases)
  then show ?case using Cons.IH by simp
qed

text \<open>
  C1. From the empty store, \<^verbatim>\<open>addEvent\<close> of the long-render event \<open>L1\<close> over \<open>[0,500]\<close>
  and then of the interaction event \<open>I1\<close> over \<open>[200,300]\<close>: the scan marks \<open>L1\<close>, then
  meets \<open>I1\<close> and returns at line 233 before \<^verbatim>\<open>set\<close> is reached. The visible events are
  still \<open>[L1]\<close>: \<open>L1\<close> is there and \<open>I1\<close> is not.
\<close>

theorem dedup_scenario_keeps_long_render:
  "events (addEvent (addEvent initial_store L1) I1) = [L1]
   \<and> removal_scan [L1, I1] [L1] {} = Some {''L1''}
   \<and> removal_scan [L1, I1] [L1, I1] {} = None"
  by (simp add: addEvent_def initial_store_def Let_def
      applyOverlapCheckToLongRenderEvent_def overlap_callback_def boundary_checks_def)

text \<open>
  C2. For a long-render interval and an interaction interval, each with
  \<open>startAt \<le> endAt\<close>, one of the three boundary checks of the scan holds exactly when
  the intervals meet by the test \<open>s1 \<le> e2 \<and> s2 \<le> e1\<close>; \<open>[0,100]\<close> and \<open>[100,200]\<close> overlap,
  \<open>[0,10]\<close> and \<open>[11,20]\<close> do not, whichever of the two is the long-render event.
\<close>

theorem overlap_checks_refine_spec:
  "(startAt l \<le> endAt l \<and> startAt e \<le> endAt e \<longrightarrow> boundary_checks l e = spec_overlap l e)
   \<and> (startAt l \<le> endAt l \<and> startAt e \<le> endAt e \<and>
        kind e = interaction \<and> event_id e \<noteq> event_id l \<longrightarrow>
        overlap_callback l e = spec_overlap l e)
   \<and> boundary_checks (LongRenderPipeline i 0 100 m) (InteractionEvent j 100 200 n)
   \<and> boundary_checks (LongRenderPipeline i 100 200 m) (InteractionEvent j 0 100 n)
   \<and> \<not> boundary_checks (LongRenderPipeline i 0 10 m) (InteractionEvent j 11 20 n)
   \<and> \<not> boundary_checks (LongRenderPipeline i 11 20 m) (InteractionEvent j 0 10 n)"
  unfolding overlap_callback_def boundary_checks_def spec_overlap_def by auto

theorem overlap_checks_refine_spec_witness:
  "startAt L1 \<le> endAt L1 \<and> startAt I1 \<le> endAt I1 \<and>
   kind I1 = interaction \<and> event_id I1 \<noteq> event_id L1 \<and>
   boundary_checks L1 I1 \<and> overlap_callback L1 I1 \<and> spec_overlap L1 I1"
  using overlap_checks_refine_spec [of L1 I1, THEN conjunct1]
    overlap_checks_refine_spec [of L1 I1, THEN conjunct2, THEN conjunct1]
  by (simp add: spec_overlap_def)

text \<open>
  C4. The visible set after an insertion is meant to be the old events and the new one
  without the long-render events that were marked. An interaction event given to
  \<^verbatim>\<open>addEvent\<close> on the empty store is not among the visible events afterwards: the
  insertion itself loses it, at the \<^verbatim>\<open>return\<close> of line 233. Between two long-render
  events it is lost in the same way.
\<close>

theorem inserted_interaction_is_dropped:
  "events (foldl addEvent initial_store [I1]) = []
   \<and> events (foldl addEvent initial_store [L1, I1, L2]) = [L1, L2]
   \<and> I1 \<in> set (events initial_store @ [I1])
   \<and> I1 \<notin> set (events (addEvent initial_store I1))
   \<and> kind I1 = interaction"
  by (simp add: events_addEvent_cases initial_store_def)

section \<open>Listeners\<close>

text \<open>The list of listeners never holds a callback twice: the store's operations keep it so.\<close>

lemma distinct_set_add: "distinct xs \<Longrightarrow> distinct (set_add x xs)"
  by (simp add: set_add_def)

lemma distinct_set_delete: "distinct xs \<Longrightarrow> distinct (set_delete x xs)"
  by (simp add: set_delete_def)

lemma listeners_addEvent: "listeners (addEvent s e) = listeners s"
  by (simp add: addEvent_def Let_def split: option.split)




lemma distinct_listeners_kept:
  assumes "distinct (listeners s)"
  shows "distinct (listeners (addListener s l))" and "distinct (listeners (unsubscribe l s))"
    and "distinct (listeners (addEvent s e))" and "distinct (listeners (clear s))"
  using assms
  by (simp_all add: addListener_def unsubscribe_def clear_def listeners_addEvent
      distinct_set_add distinct_set_delete)

section \<open>Notification over the live \<open>Set\<close>\<close>













section \<open>The sampler cycle\<close>

lemma toolbarEventStore_timeout_callback:
  "toolbarEventStore (timeout_callback w st so en eo i r nt no) =
     (if en - st > 100 \<and> \<not> isTaskDirty w
      then addEvent (toolbarEventStore w)
             (LongRenderPipeline i (st + so) (eo + en)
                \<lparr> lr_latency = en - st, fiberRenders = r,
                  fps = length (framesInTheLastSecond (framesDrawnInTheLastSecond w) en) \<rparr>)
      else toolbarEventStore w)"
  by (simp add: timeout_callback_def Let_def measure_start_def collaborator_defs)

lemma frames_timeout_callback:
  "framesDrawnInTheLastSecond (timeout_callback w st so en eo i r nt no) =
     framesInTheLastSecond (framesDrawnInTheLastSecond w) en"
  by (simp add: timeout_callback_def Let_def measure_start_def collaborator_defs)

lemma isTaskDirty_timeout_callback:
  "isTaskDirty (timeout_callback w st so en eo i r nt no) = False"
  by (simp add: timeout_callback_def Let_def measure_start_def collaborator_defs)

text \<open>
  C7. When the dirty flag is set as the timer callback of a cycle runs, the store is
  left as it was (no event is given to \<^verbatim>\<open>addEvent\<close>), whatever the measured duration;
  so it is when a \<^verbatim>\<open>visibilitychange\<close> to a non-visible state reached the registered
  listener before. After the callback the flag is false in every case, which is the
  state the next cycle starts in.
\<close>

theorem dirty_cycle_emits_nothing:
  "(isTaskDirty w \<longrightarrow>
      toolbarEventStore (timeout_callback w st so en eo i r nt no) = toolbarEventStore w)
   \<and> (0 < visibilityListeners w \<longrightarrow>
      toolbarEventStore (timeout_callback (visibilitychange w False) st so en eo i r nt no)
        = toolbarEventStore w)
   \<and> \<not> isTaskDirty (timeout_callback w st so en eo i r nt no)"
  by (simp add: toolbarEventStore_timeout_callback isTaskDirty_timeout_callback
      visibilitychange_def)

theorem dirty_cycle_emits_nothing_witness:
  "isTaskDirty (visibilitychange (startTimingTracking W0 0 0) False)
   \<and> 0 < visibilityListeners (startTimingTracking W0 0 0)
   \<and> (150::real) - 0 > 100
   \<and> toolbarEventStore (timeout_callback (visibilitychange (startTimingTracking W0 0 0) False)
        0 0 150 0 ''L1'' () 150 0) = addListener initial_store 7
   \<and> \<not> isTaskDirty (timeout_callback (visibilitychange (startTimingTracking W0 0 0) False)
        0 0 150 0 ''L1'' () 150 0)"
  using dirty_cycle_emits_nothing [of "visibilitychange (startTimingTracking W0 0 0) False"
      0 0 150 0 "''L1''" "()" 150 0]
    dirty_cycle_emits_nothing [of "startTimingTracking W0 0 0"
      0 0 150 0 "''L1''" "()" 150 0]
  by (simp add: visibilitychange_def startTimingTracking_def startDirtyTaskTracking_def
      startLongPipelineTracking_def measure_start_def collaborator_defs Let_def initial_world_def)

text \<open>
  C8. The timer callback appends the current time to the frame window and keeps the
  entries with \<open>now - frameAt \<le> 1000\<close>: an entry stays exactly when it is not older than
  that. The \<^verbatim>\<open>fps\<close> of the event the cycle emits is the length of the window so pruned.
  Feeding 0, 200, 400 and 1100 leaves \<open>[200, 400, 1100]\<close>, of length 3.
\<close>

theorem frame_window_fps:
  "framesDrawnInTheLastSecond (timeout_callback w st so en eo i r nt no) =
     filter (\<lambda>frameAt. en - frameAt \<le> 1000) (framesDrawnInTheLastSecond w @ [en])
   \<and> (\<forall>frameAt \<in> set (framesDrawnInTheLastSecond w @ [en]).
        (frameAt \<in> set (framesDrawnInTheLastSecond (timeout_callback w st so en eo i r nt no)))
          = (\<not> en - frameAt > 1000))
   \<and> (en - st > 100 \<and> \<not> isTaskDirty w \<longrightarrow>
        toolbarEventStore (timeout_callback w st so en eo i r nt no) =
          addEvent (toolbarEventStore w)
            (LongRenderPipeline i (st + so) (eo + en)
               \<lparr> lr_latency = en - st, fiberRenders = r,
                 fps = length (framesDrawnInTheLastSecond
                                 (timeout_callback w st so en eo i r nt no)) \<rparr>))
   \<and> framesInTheLastSecond
        (framesInTheLastSecond (framesInTheLastSecond (framesInTheLastSecond [] 0) 200) 400) 1100
       = [200, 400, 1100]
   \<and> length (framesInTheLastSecond
        (framesInTheLastSecond (framesInTheLastSecond (framesInTheLastSecond [] 0) 200) 400) 1100)
       = 3"
  by (auto simp add: toolbarEventStore_timeout_callback frames_timeout_callback
      framesInTheLastSecond_def)

theorem frame_window_fps_witness:
  "(0::real) \<in> set (framesDrawnInTheLastSecond (W0\<lparr> framesDrawnInTheLastSecond := [0, 200, 400] \<rparr>) @ [1100])
   \<and> (1100::real) - 0 > 1000
   \<and> 0 \<notin> set (framesDrawnInTheLastSecond
       (timeout_callback (W0\<lparr> framesDrawnInTheLastSecond := [0, 200, 400] \<rparr>)
          900 0 1100 0 ''L1'' () 1100 0))
   \<and> (1100::real) - 900 > 100 \<and> \<not> isTaskDirty (W0\<lparr> framesDrawnInTheLastSecond := [0, 200, 400] \<rparr>)
   \<and> framesDrawnInTheLastSecond
       (timeout_callback (W0\<lparr> framesDrawnInTheLastSecond := [0, 200, 400] \<rparr>)
          900 0 1100 0 ''L1'' () 1100 0) = [200, 400, 1100]
   \<and> events (toolbarEventStore
       (timeout_callback (W0\<lparr> framesDrawnInTheLastSecond := [0, 200, 400] \<rparr>)
          900 0 1100 0 ''L1'' () 1100 0))
      = [LongRenderPipeline ''L1'' 900 1100 \<lparr> lr_latency = 200, fiberRenders = (), fps = 3 \<rparr>]"
  using frame_window_fps [of "W0\<lparr> framesDrawnInTheLastSecond := [0, 200, 400] \<rparr>"
      900 0 1100 0 "''L1''" "()" 1100 0]
  by (simp add: initial_world_def events_addEvent_cases addListener_def initial_store_def
      frames_timeout_callback toolbarEventStore_timeout_callback framesInTheLastSecond_def)

section \<open>Completion of a detailed timing\<close>


lemma getChannelState_update_other:
  "other \<noteq> name \<Longrightarrow>
   getChannelState M (updateChannelState M chs name fn) other = getChannelState M chs other"
  by (simp add: getChannelState_def updateChannelState_def)






section \<open>The interaction status\<close>

text \<open>
  C9, as the code has it. The status starts as \<^verbatim>\<open>no-interaction\<close>, and nothing in the
  file assigns it: starting and stopping the tracking, the completion of a detailed
  timing, the callbacks of the sampler and a visibility change all leave it as it was.
\<close>

theorem interactionStatus_never_written:
  "interactionStatus (initial_world :: 'fr World) = no_interaction
   \<and> interactionStatus (startTimingTracking w st so) = interactionStatus w
   \<and> interactionStatus (onComplete M w fi ev i now origin) = interactionStatus w
   \<and> interactionStatus (stopTimingTracking w) = interactionStatus w
   \<and> interactionStatus (run_pending w en eo j r nt no) = interactionStatus w
   \<and> interactionStatus (visibilitychange w visible) = interactionStatus w"
  by (simp add: initial_world_def startTimingTracking_def startDirtyTaskTracking_def
      startLongPipelineTracking_def measure_start_def collaborator_defs onComplete_def stopTimingTracking_def
      run_pending_def animation_frame_callback_def timeout_callback_def visibilitychange_def
      Let_def split: pending_callback.split)

text \<open>
  C9, as stated, fails: a detailed timing that resolves while the status is \<^verbatim>\<open>started\<close>
  leaves it \<^verbatim>\<open>started\<close>, not \<^verbatim>\<open>completed\<close>; and after the tracking was started and a
  timing resolved the status is \<^verbatim>\<open>no-interaction\<close>, as at the beginning.
\<close>

theorem interactionStatus_lifecycle_counterexample:
  "interactionStatus (onComplete 50 (startTimingTracking W0 0 0) FI1 recording_entry ''I1'' 300 0)
     = no_interaction
   \<and> interactionStatus (onComplete 50 (W0\<lparr> interactionStatus := started 200 \<rparr>)
        FI1 recording_entry ''I1'' 300 0) = started 200
   \<and> interactionStatus (onComplete 50 (W0\<lparr> interactionStatus := started 200 \<rparr>)
        FI1 recording_entry ''I1'' 300 0) \<noteq> completed 200 300"
  by (simp add: initial_world_def startTimingTracking_def startDirtyTaskTracking_def
      startLongPipelineTracking_def measure_start_def collaborator_defs onComplete_def Let_def)

section \<open>Stopping the tracking\<close>

text \<open>
  C3. The tracking is started at time 0 and stopped, twice. The second stop changes
  nothing, but the animation-frame callback of the sampler is still pending and the
  visibility listener still registered: the function that \<^verbatim>\<open>startLongPipelineTracking\<close>
  returned was dropped at line 354. The frame callback and then the timer callback run,
  the latter at time 150: a long-render event enters the store and its listener is
  called, and the next cycle is pending. Had the dropped function been called, no
  callback would be left to run.
\<close>

theorem sampler_runs_after_stop:
  "stopTimingTracking (stopTimingTracking (startTimingTracking W0 0 0))
     = stopTimingTracking (startTimingTracking W0 0 0)
   \<and> pendingMeasure (stopTimingTracking (startTimingTracking W0 0 0)) = animation_frame 0 0
   \<and> visibilityListeners (stopTimingTracking (startTimingTracking W0 0 0)) = 1
   \<and> toolbarEventStore
       (run_pending
          (run_pending (stopTimingTracking (startTimingTracking W0 0 0)) 16 0 ''a'' () 16 0)
          150 0 ''L1'' () 150 0)
      = \<lparr> events = [LongRenderPipeline ''L1'' 0 150
                       \<lparr> lr_latency = 150, fiberRenders = (), fps = 1 \<rparr>],
          listeners = [7],
          calls = [\<lparr> callee = 7,
                     argument = LongRenderPipeline ''L1'' 0 150
                       \<lparr> lr_latency = 150, fiberRenders = (), fps = 1 \<rparr>,
                     visible_at_call = [] \<rparr>] \<rparr>
   \<and> pendingMeasure
       (run_pending
          (run_pending (stopTimingTracking (startTimingTracking W0 0 0)) 16 0 ''a'' () 16 0)
          150 0 ''L1'' () 150 0) = animation_frame 150 0
   \<and> run_pending (stopLongPipelineTracking (stopTimingTracking (startTimingTracking W0 0 0)))
        150 0 ''L1'' () 150 0
      = stopLongPipelineTracking (stopTimingTracking (startTimingTracking W0 0 0))"
  by (simp add: initial_world_def startTimingTracking_def startDirtyTaskTracking_def
      startLongPipelineTracking_def measure_start_def collaborator_defs stopTimingTracking_def
      run_pending_def animation_frame_callback_def timeout_callback_def
      framesInTheLastSecond_def Let_def addListener_def initial_store_def set_add_def
      addEvent_def notify_listeners_def applyOverlapCheckToLongRenderEvent_def overlap_callback_def
      stopLongPipelineTracking_def)

end
